theory Spec2Isabelle
  imports Main "HOL-Library.Multiset" "HOL-Library.Product_Lexorder" "HOL-Library.Sublist"
begin

section \<open>Text values\<close>

text \<open>
  A cell of the data frame is either a text or the missing value that the CSV reader
  puts where a field is empty or absent (the float \<open>nan\<close>). Python's \<open>str\<close> turns the
  missing value into the text \<open>nan\<close>. A text is a list of code points; the model covers
  the code points 0 to 255 (Latin-1), for which \<open>str.lower\<close> works character by
  character and the \<open>\w\<close> class of the regular expression engine is the set below.
\<close>

datatype cell = Text string | NaN

fun py_str :: "cell \<Rightarrow> string" where
  "py_str (Text s) = s"
| "py_str NaN = ''nan''"

definition codepoint :: "char \<Rightarrow> nat" where
  "codepoint c = of_char c"

definition is_word_char :: "char \<Rightarrow> bool" where
  "is_word_char c =
     (let n = codepoint c in
        (48 \<le> n \<and> n \<le> 57) \<or> (65 \<le> n \<and> n \<le> 90) \<or> n = 95 \<or> (97 \<le> n \<and> n \<le> 122) \<or>
        n = 170 \<or> n = 178 \<or> n = 179 \<or> n = 181 \<or> n = 185 \<or> n = 186 \<or>
        (188 \<le> n \<and> n \<le> 190) \<or> (192 \<le> n \<and> n \<le> 214) \<or> (216 \<le> n \<and> n \<le> 246) \<or>
        248 \<le> n)"

definition is_upper_char :: "char \<Rightarrow> bool" where
  "is_upper_char c =
     (let n = codepoint c in
        (65 \<le> n \<and> n \<le> 90) \<or> (192 \<le> n \<and> n \<le> 214) \<or> (216 \<le> n \<and> n \<le> 222))"

definition lower_char :: "char \<Rightarrow> char" where
  "lower_char c = (if is_upper_char c then char_of (codepoint c + 32) else c)"

definition lower :: "string \<Rightarrow> string" where
  "lower s = map lower_char s"

text \<open>
  \<open>re.findall(r'\b\w+\b', text)\<close>: the engine scans from the left; a match starts at a
  word boundary, takes word characters greedily and ends at the next boundary, so the
  matches are the maximal runs of word characters. \<open>run\<close> is the run being read.
\<close>

fun scan_words :: "string \<Rightarrow> string \<Rightarrow> string list" where
  "scan_words run [] = (if run = [] then [] else [run])"
| "scan_words run (c # cs) =
     (if is_word_char c then scan_words (run @ [c]) cs
      else (if run = [] then [] else [run]) @ scan_words [] cs)"

definition findall_words :: "string \<Rightarrow> string list" where
  "findall_words s = scan_words [] s"

section \<open>The slang detector\<close>

definition detect_slang_words :: "cell \<Rightarrow> string set \<Rightarrow> string list" where
  "detect_slang_words text slang_dictionary =
     (let text' = lower (py_str text);
          words = findall_words text'
      in fold (\<lambda>word found_slang.
                 if word \<in> slang_dictionary then found_slang @ [word] else found_slang)
           words [])"

definition slang_dictionary :: "string set" where
  "slang_dictionary =
     {''gue'', ''lu'', ''elu'', ''gw'', ''loe'', ''gak'', ''nggak'', ''gada'', ''gaada'',
      ''udah'', ''udh'', ''dah'', ''udeh'', ''tuh'', ''teh'', ''mah'', ''dong'', ''deh'',
      ''sih'', ''nih'', ''mulu'', ''aja'', ''doang'', ''banget'', ''bgt'', ''bener'',
      ''viral'', ''netizen'', ''followers'', ''haters'', ''hits'', ''kece'', ''gercep'',
      ''gabut'', ''garing'', ''receh'', ''baper'', ''kepo'', ''julid'', ''glow up'',
      ''otw'', ''btw'', ''asap'', ''tfl'', ''gas'', ''gws'', ''hbd'', ''oot'', ''tbh'',
      ''fyi'', ''cmiiw'', ''imho'', ''tysm'', ''wkwk'', ''ttd'', ''pdf'',
      ''gegara'', ''santuy'', ''gokil'', ''cucok'', ''mantul'', ''mantap'', ''sultan'',
      ''auto'', ''anjay'', ''yakali'', ''sabi'', ''jutek'', ''lebay'', ''kzl''}"

section \<open>Dates and the loader\<close>

text \<open>
  A timestamp of the \<open>Waktu\<close> column is a calendar day (year, month, day), ordered
  lexicographically; \<open>None\<close> is the null timestamp. \<open>to_datetime\<close> is
  \<open>pd.to_datetime(x, format='%d/%m/%Y', errors='coerce')\<close>: a day of one or two digits
  (or a blank and a digit), a month of one or two digits, a year of four digits, a day
  that exists in the calendar and lies in the range of a nanosecond timestamp; every
  other value becomes the null timestamp.
\<close>

type_synonym date = "nat \<times> nat \<times> nat"

definition digit_val :: "char \<Rightarrow> nat option" where
  "digit_val c =
     (let n = codepoint c in if 48 \<le> n \<and> n \<le> 57 then Some (n - 48) else None)"

fun parse_day :: "string \<Rightarrow> nat option" where
  "parse_day [a] = (case digit_val a of Some x \<Rightarrow> if 1 \<le> x then Some x else None | None \<Rightarrow> None)"
| "parse_day [a, b] =
     (case (digit_val a, digit_val b) of
        (Some x, Some y) \<Rightarrow> if 1 \<le> 10 * x + y \<and> 10 * x + y \<le> 31 then Some (10 * x + y) else None
      | (None, Some y) \<Rightarrow> if a = CHR '' '' \<and> 1 \<le> y then Some y else None
      | _ \<Rightarrow> None)"
| "parse_day _ = None"

fun parse_month :: "string \<Rightarrow> nat option" where
  "parse_month [a] = (case digit_val a of Some x \<Rightarrow> if 1 \<le> x then Some x else None | None \<Rightarrow> None)"
| "parse_month [a, b] =
     (case (digit_val a, digit_val b) of
        (Some x, Some y) \<Rightarrow> if 1 \<le> 10 * x + y \<and> 10 * x + y \<le> 12 then Some (10 * x + y) else None
      | _ \<Rightarrow> None)"
| "parse_month _ = None"

fun parse_year :: "string \<Rightarrow> nat option" where
  "parse_year [a, b, c, d] =
     (case (digit_val a, digit_val b, digit_val c, digit_val d) of
        (Some w, Some x, Some y, Some z) \<Rightarrow> Some (1000 * w + 100 * x + 10 * y + z)
      | _ \<Rightarrow> None)"
| "parse_year _ = None"

definition is_leap :: "nat \<Rightarrow> bool" where
  "is_leap y = (y mod 4 = 0 \<and> (y mod 100 \<noteq> 0 \<or> y mod 400 = 0))"

definition days_in_month :: "nat \<Rightarrow> nat \<Rightarrow> nat" where
  "days_in_month y m =
     (if m = 2 then (if is_leap y then 29 else 28)
      else if m = 4 \<or> m = 6 \<or> m = 9 \<or> m = 11 then 30 else 31)"

definition in_timestamp_range :: "date \<Rightarrow> bool" where
  "in_timestamp_range d = ((1677, 9, 22) \<le> d \<and> d \<le> (2262, 4, 11))"

text \<open>The field up to the first \<open>/\<close>, and what follows that \<open>/\<close> (if there is one).\<close>

fun split_slash :: "string \<Rightarrow> string \<times> string option" where
  "split_slash [] = ([], None)"
| "split_slash (c # cs) =
     (if c = CHR ''/'' then ([], Some cs)
      else (case split_slash cs of (f, r) \<Rightarrow> (c # f, r)))"

definition strptime_dmy :: "string \<Rightarrow> date option" where
  "strptime_dmy s =
     (case split_slash s of
        (ds, Some s1) \<Rightarrow>
          (case split_slash s1 of
             (ms, Some ys) \<Rightarrow>
               (case (parse_day ds, parse_month ms, parse_year ys) of
                  (Some d, Some m, Some y) \<Rightarrow>
                    if d \<le> days_in_month y m \<and> in_timestamp_range (y, m, d)
                    then Some (y, m, d) else None
                | _ \<Rightarrow> None)
           | (_, None) \<Rightarrow> None)
      | (_, None) \<Rightarrow> None)"

fun to_datetime :: "cell \<Rightarrow> date option" where
  "to_datetime (Text s) = strptime_dmy s"
| "to_datetime NaN = None"

text \<open>
  A row of the table with its ten columns; the type of the \<open>Waktu\<close> column is a
  parameter: a cell as read from the file, a nullable date once loaded.
\<close>

record 'w row =
  Judul :: cell
  Waktu :: 'w
  Link :: cell
  Content :: cell
  Tag1 :: cell
  Tag2 :: cell
  Tag3 :: cell
  Tag4 :: cell
  Tag5 :: cell
  Source :: cell

type_synonym raw_table = "cell row list"
type_synonym table = "date option row list"

definition parse_dates :: "cell row \<Rightarrow> date option row" where
  "parse_dates r =
     \<lparr>Judul = Judul r, Waktu = to_datetime (Waktu r), Link = Link r, Content = Content r,
      Tag1 = Tag1 r, Tag2 = Tag2 r, Tag3 = Tag3 r, Tag4 = Tag4 r, Tag5 = Tag5 r,
      Source = Source r\<rparr>"

text \<open>Python's \<open>str\<close> of a natural number, for the f-string of the warning.\<close>

function str_nat :: "nat \<Rightarrow> string" where
  "str_nat n =
     (if n < 10 then [char_of (48 + n)]
      else str_nat (n div 10) @ [char_of (48 + n mod 10)])"
  by pat_completeness auto
termination
  by (relation "measure id") auto

text \<open>
  What reading a path gives: the rows of the file, or the exception that
  \<open>pd.read_csv\<close> raises (its message). \<open>load_data\<close> returns the lines it prints and
  the table, \<open>None\<close> where the source returns \<open>None\<close>.
\<close>

type_synonym filesystem = "string \<Rightarrow> string + raw_table"

definition isnull_sum :: "table \<Rightarrow> nat" where
  "isnull_sum df = length (filter (\<lambda>r. Waktu r = None) df)"

definition load_data :: "filesystem \<Rightarrow> string \<Rightarrow> string list \<times> table option" where
  "load_data fs file_path =
     (case fs file_path of
        Inr raw \<Rightarrow>
          (let df = map parse_dates raw;
               invalid_dates = isnull_sum df
           in ((if invalid_dates > 0
                then [''Peringatan: Terdapat '' @ str_nat invalid_dates @
                      '' baris dengan format tanggal tidak valid'']
                else []),
               Some df))
      | Inl e \<Rightarrow> ([''Error saat memuat data: '' @ e], None))"

section \<open>Counters and frequency tables\<close>

text \<open>
  A \<open>Counter\<close> is a dictionary: its entries stay in the order in which their keys were
  first inserted, and a key that is absent counts as zero. \<open>counter_inc\<close> is
  \<open>c[k] += 1\<close>, \<open>counter_update\<close> is \<open>c.update(iterable)\<close>. The missing value of
  a text column is one object, hence one key.
\<close>

fun counter_inc :: "'k \<Rightarrow> ('k \<times> nat) list \<Rightarrow> ('k \<times> nat) list" where
  "counter_inc k [] = [(k, 1)]"
| "counter_inc k ((k', n) # c) =
     (if k = k' then (k', n + 1) # c else (k', n) # counter_inc k c)"

definition counter_update :: "'k list \<Rightarrow> ('k \<times> nat) list \<Rightarrow> ('k \<times> nat) list" where
  "counter_update ks c = fold counter_inc ks c"

definition counter_get :: "('k \<times> nat) list \<Rightarrow> 'k \<Rightarrow> nat" where
  "counter_get c k = (case map_of c k of Some n \<Rightarrow> n | None \<Rightarrow> 0)"

text \<open>
  \<open>Series.value_counts()\<close> with its defaults: missing values are dropped, the values
  are counted and the counts are sorted in descending order. The library's sort is not
  stable, so the order among values of equal count is not fixed by the source; the
  function below lists them in the order of their first appearance, which is one of the
  orders the sort may give, and \<open>descending_counts\<close> further down holds of every such
  order.
\<close>

definition value_counts :: "cell list \<Rightarrow> (cell \<times> nat) list" where
  "value_counts col =
     sort_key (\<lambda>(k, n). - int n) (counter_update (filter (\<lambda>v. v \<noteq> NaN) col) [])"

definition dropna :: "'a option list \<Rightarrow> 'a list" where
  "dropna col = concat (map (\<lambda>v. case v of Some x \<Rightarrow> [x] | None \<Rightarrow> []) col)"

text \<open>\<open>Series.min()\<close> and \<open>Series.max()\<close> skip the null values; of no value they are null.\<close>

definition series_min :: "date option list \<Rightarrow> date option" where
  "series_min col = (case dropna col of [] \<Rightarrow> None | d # ds \<Rightarrow> Some (fold min ds d))"

definition series_max :: "date option list \<Rightarrow> date option" where
  "series_max col = (case dropna col of [] \<Rightarrow> None | d # ds \<Rightarrow> Some (fold max ds d))"

text \<open>\<open>df.groupby(df['Waktu'].dt.date).size()\<close>: one entry per day, in ascending order of
  the day; rows with a null timestamp belong to no group.\<close>

definition groupby_size :: "date option list \<Rightarrow> (date \<times> nat) list" where
  "groupby_size col =
     (let days = dropna col
      in map (\<lambda>d. (d, count_list days d)) (sorted_list_of_set (set days)))"

section \<open>The aggregator\<close>

text \<open>
  An example record; \<open>list(set(...))\<close> lists the distinct matched words in an order
  that the source does not fix, so the field is the set of those words.
\<close>

record contoh =
  judul :: cell
  waktu :: "date option"
  source :: cell
  kata_gaul :: "string set"

record results =
  total_berita :: nat
  periode :: "date option \<times> date option"
  sumber_berita :: "(cell \<times> nat) list"
  top_tags :: "(cell \<times> nat) list"
  berita_per_hari :: "(date \<times> nat) list"
  berita_dengan_gaul_judul :: nat
  berita_dengan_gaul_konten :: nat
  frekuensi_kata_gaul :: "(string \<times> nat) list"
  berita_gaul_per_sumber :: "(cell \<times> nat) list"
  contoh_berita_gaul :: "contoh list"

definition basic_analysis :: "table \<Rightarrow> results" where
  "basic_analysis df =
     \<lparr>total_berita = length df,
      periode = (series_min (map Waktu df), series_max (map Waktu df)),
      sumber_berita = value_counts (map Source df),
      top_tags = take 10 (value_counts
        (map Tag1 df @ map Tag2 df @ map Tag3 df @ map Tag4 df @ map Tag5 df)),
      berita_per_hari = groupby_size (map Waktu df),
      berita_dengan_gaul_judul = 0,
      berita_dengan_gaul_konten = 0,
      frekuensi_kata_gaul = [],
      berita_gaul_per_sumber = [],
      contoh_berita_gaul = []\<rparr>"

text \<open>The body of the loop over the rows, for a vocabulary \<open>V\<close>.\<close>

definition analyze_row :: "string set \<Rightarrow> date option row \<Rightarrow> results \<Rightarrow> results" where
  "analyze_row V row res =
     (let slang_in_title = detect_slang_words (Judul row) V;
          slang_in_content = detect_slang_words (Content row) V;
          res1 = (if slang_in_title \<noteq> []
                  then res\<lparr>berita_dengan_gaul_judul := berita_dengan_gaul_judul res + 1,
                           frekuensi_kata_gaul :=
                             counter_update slang_in_title (frekuensi_kata_gaul res)\<rparr>
                  else res);
          res2 = (if slang_in_content \<noteq> []
                  then res1\<lparr>berita_dengan_gaul_konten := berita_dengan_gaul_konten res1 + 1,
                            frekuensi_kata_gaul :=
                              counter_update slang_in_content (frekuensi_kata_gaul res1)\<rparr>
                  else res1)
      in if slang_in_title \<noteq> [] \<or> slang_in_content \<noteq> []
         then (let res3 = res2\<lparr>berita_gaul_per_sumber :=
                                  counter_inc (Source row) (berita_gaul_per_sumber res2)\<rparr>
               in if length (contoh_berita_gaul res3) < 5
                  then res3\<lparr>contoh_berita_gaul := contoh_berita_gaul res3 @
                         [\<lparr>judul = Judul row, waktu = Waktu row, source = Source row,
                           kata_gaul = set (slang_in_title @ slang_in_content)\<rparr>]\<rparr>
                  else res3)
         else res2)"

definition analyze_with :: "string set \<Rightarrow> table \<Rightarrow> results" where
  "analyze_with V df = fold (analyze_row V) df (basic_analysis df)"

definition analyze_news_and_slang :: "table \<Rightarrow> results" where
  "analyze_news_and_slang df = analyze_with slang_dictionary df"

section \<open>The renderer and the main sequence\<close>

text \<open>
  The drawing library is outside the model: a chart is the data handed to it, and a
  plot is modelled by whether it raises. A bar plot of a series without entry raises
  \<open>IndexError\<close>; a bar plot of the frame of an empty counter raises \<open>TypeError\<close>
  (no numeric data to plot); the line plot and the pie chart draw what they are given.
\<close>

datatype py_error = IndexError | TypeError

definition series_plot_bar :: "('k \<times> nat) list \<Rightarrow> py_error option" where
  "series_plot_bar s = (if s = [] then Some IndexError else None)"

definition frame_plot_bar :: "('k \<times> nat) list \<Rightarrow> py_error option" where
  "frame_plot_bar f = (if f = [] then Some TypeError else None)"

record charts =
  sumber_bar :: "(cell \<times> nat) list"
  tags_bar :: "(cell \<times> nat) list"
  harian_line :: "(date \<times> nat) list"
  pie_sizes :: "int list"
  top_words :: "(string \<times> nat) list"
  source_df :: "(cell \<times> nat) list"

text \<open>
  \<open>create_visualizations\<close> gives the exception that stops it or the series it has
  plotted, and the files it has saved by then: the first figure is saved before the
  second is drawn.
\<close>

definition create_visualizations :: "results \<Rightarrow> (py_error + charts) \<times> string list" where
  "create_visualizations res =
     (case series_plot_bar (sumber_berita res) of
        Some e \<Rightarrow> (Inl e, [])
      | None \<Rightarrow>
     (case series_plot_bar (top_tags res) of
        Some e \<Rightarrow> (Inl e, [])
      | None \<Rightarrow>
     (let saved1 = [''hasil_analisis_umum.png''];
          sizes = [int (berita_dengan_gaul_konten res),
                   int (total_berita res) - int (berita_dengan_gaul_konten res)];
          top_words = take 10 (frekuensi_kata_gaul res)
      in case frame_plot_bar top_words of
           Some e \<Rightarrow> (Inl e, saved1)
         | None \<Rightarrow>
        (let source_df = berita_gaul_per_sumber res
         in case frame_plot_bar source_df of
              Some e \<Rightarrow> (Inl e, saved1)
            | None \<Rightarrow>
                (Inr \<lparr>sumber_bar = sumber_berita res,
                       tags_bar = top_tags res,
                       harian_line = berita_per_hari res,
                       pie_sizes = sizes,
                       top_words = top_words,
                       source_df = source_df\<rparr>,
                 saved1 @ [''hasil_analisis_bahasa_gaul.png''])))))"

text \<open>\<open>create_visual_report\<close> draws literal figures only: the line it prints and the
  file it saves.\<close>

definition create_visual_report :: "results \<Rightarrow> string list \<times> string list" where
  "create_visual_report res =
     ([''Visualisasi laporan telah disimpan sebagai 'laporan_visual.png'' @ [CHR 0x27]],
      [''laporan_visual.png''])"

text \<open>
  A run: the lines printed, the analysis result if the analysis ran, the outcome of the
  renderer if it ran, the files saved. \<open>main\<close> catches nothing: an exception of the
  renderer ends the run there.
\<close>

record run =
  printed :: "string list"
  analysed :: "results option"
  rendered :: "(py_error + charts) option"
  saved :: "string list"

definition main :: "filesystem \<Rightarrow> run" where
  "main fs =
     (let file_path = ''politik_merge.csv'';
          out0 = [''Memuat dataset...''];
          (out1, df) = load_data fs file_path
      in case df of
           Some d \<Rightarrow>
             (let out2 = [''Menganalisis data dan penggunaan bahasa gaul...''];
                  res = analyze_news_and_slang d;
                  out3 = [''Membuat visualisasi...''];
                  (drawn, files1) = create_visualizations res
              in case drawn of
                   Inl e \<Rightarrow>
                     \<lparr>printed = out0 @ out1 @ out2 @ out3,
                      analysed = Some res, rendered = Some (Inl e), saved = files1\<rparr>
                 | Inr ch \<Rightarrow>
                     (let out4 = [CHR 0x0A # ''Membuat laporan...''];
                          (out5, files2) = create_visual_report res;
                          out6 = [CHR 0x0A # ''Laporan telah disimpan sebagai 'laporan_analisis_lengkap.txt'' @
                                    [CHR 0x27],
                                  ''Visualisasi telah disimpan sebagai 'hasil_analisis_umum.png' dan '' @
                                    [CHR 0x27] @ ''hasil_analisis_bahasa_gaul.png'' @ [CHR 0x27]]
                      in \<lparr>printed = out0 @ out1 @ out2 @ out3 @ out4 @ out5 @ out6,
                          analysed = Some res, rendered = Some (Inr ch),
                          saved = files1 @ files2\<rparr>))
         | None \<Rightarrow> \<lparr>printed = out0 @ out1, analysed = None, rendered = None, saved = []\<rparr>)"

section \<open>Notions used to state the properties\<close>

text \<open>
  A slang-bearing row has a match in its title or in its content; \<open>row_words\<close> are
  the matches of a row, those of the title first; \<open>example_of\<close> is the example record
  of a row. \<open>mk_row\<close> and \<open>mk_raw\<close> build a row from its title, timestamp, content
  and source, the other columns missing.
\<close>

definition has_slang :: "string set \<Rightarrow> date option row \<Rightarrow> bool" where
  "has_slang V r =
     (detect_slang_words (Judul r) V \<noteq> [] \<or> detect_slang_words (Content r) V \<noteq> [])"

definition row_words :: "string set \<Rightarrow> date option row \<Rightarrow> string list" where
  "row_words V r = detect_slang_words (Judul r) V @ detect_slang_words (Content r) V"

definition example_of :: "string set \<Rightarrow> date option row \<Rightarrow> contoh" where
  "example_of V r =
     \<lparr>judul = Judul r, waktu = Waktu r, source = Source r,
      kata_gaul = set (detect_slang_words (Judul r) V) \<union> set (detect_slang_words (Content r) V)\<rparr>"

definition mk_row :: "cell \<Rightarrow> date option \<Rightarrow> cell \<Rightarrow> cell \<Rightarrow> date option row" where
  "mk_row t w c s =
     \<lparr>Judul = t, Waktu = w, Link = NaN, Content = c,
      Tag1 = NaN, Tag2 = NaN, Tag3 = NaN, Tag4 = NaN, Tag5 = NaN, Source = s\<rparr>"

definition mk_raw :: "cell \<Rightarrow> cell \<Rightarrow> cell \<Rightarrow> cell \<Rightarrow> cell row" where
  "mk_raw t w c s =
     \<lparr>Judul = t, Waktu = w, Link = NaN, Content = c,
      Tag1 = NaN, Tag2 = NaN, Tag3 = NaN, Tag4 = NaN, Tag5 = NaN, Source = s\<rparr>"

text \<open>A table of seven rows, six of them slang-bearing.\<close>

definition sample_table :: table where
  "sample_table =
     [mk_row (Text ''Gue Suka Banget'') (Some (2024, 1, 5)) (Text ''Berita biasa'') (Text ''Detik''),
      mk_row (Text ''Berita biasa'') None (Text ''Tidak ada'') (Text ''Tempo''),
      mk_row (Text ''Rapat kabinet'') (Some (2024, 1, 6)) (Text ''Kata dia, nggak ada'') NaN,
      mk_row (Text ''Viral!'') (Some (2024, 1, 7)) (Text ''viral banget'') (Text ''Kompas''),
      mk_row NaN (Some (2024, 1, 8)) (Text ''dong'') (Text ''Detik''),
      mk_row (Text ''Sultan'') None NaN (Text ''Tempo''),
      mk_row (Text ''Netizen heboh'') (Some (2024, 1, 9)) (Text ''isi'') (Text ''Detik'')]"

text \<open>A file of three rows, the second with a day that does not exist.\<close>

definition three_raw :: raw_table where
  "three_raw =
     [mk_raw (Text ''Rapat kabinet'') (Text ''05/01/2024'') (Text ''isi'') (Text ''Detik''),
      mk_raw (Text ''Sidang'') (Text ''31/02/2024'') (Text ''isi'') (Text ''Tempo''),
      mk_raw (Text ''Pemilu'') (Text ''03/01/2024'') (Text ''isi'') (Text ''Kompas'')]"

text \<open>The row of the example scenario.\<close>

definition scenario_row :: "date option row" where
  "scenario_row =
     mk_row (Text ''Gue Suka Banget'') (Some (2024, 1, 5)) (Text ''Berita biasa'') (Text ''Detik'')"



definition descending_counts :: "cell list \<Rightarrow> (cell \<times> nat) list \<Rightarrow> bool" where
  "descending_counts col res =
     (mset res = mset (counter_update (filter (\<lambda>v. v \<noteq> NaN) col) []) \<and>
      sorted (map (\<lambda>(k, n). - int n) res))"


section \<open>Lemmas\<close>

subsection \<open>Lower-casing and tokens\<close>

lemma codepoint_char_of: "n < 256 \<Longrightarrow> codepoint (char_of n) = n"
  by (simp add: codepoint_def)

lemma lower_char_not_upper: "\<not> is_upper_char (lower_char c)"
proof (cases "is_upper_char c")
  case False
  then show ?thesis by (simp add: lower_char_def)
next
  case True
  then have "codepoint c + 32 < 256"
    by (auto simp: is_upper_char_def Let_def)
  then have "codepoint (char_of (codepoint c + 32)) = codepoint c + 32"
    by (rule codepoint_char_of)
  with True show ?thesis
    by (auto simp: lower_char_def is_upper_char_def Let_def)
qed

lemma lower_no_upper: "c \<in> set (lower s) \<Longrightarrow> \<not> is_upper_char c"
  by (auto simp: lower_def lower_char_not_upper)

lemma scan_words_tokens:
  "w \<in> set (scan_words run s) \<Longrightarrow> w \<noteq> [] \<and> set w \<subseteq> set run \<union> set s"
  by (induction run s rule: scan_words.induct) (auto split: if_splits)

lemma scan_words_word_chars:
  "w \<in> set (scan_words run s) \<Longrightarrow> \<forall>c\<in>set run. is_word_char c \<Longrightarrow> c \<in> set w \<Longrightarrow> is_word_char c"
  by (induction run s rule: scan_words.induct) (auto split: if_splits)

lemma scan_words_run:
  "\<forall>c\<in>set w. is_word_char c \<Longrightarrow> scan_words run w = (if run @ w = [] then [] else [run @ w])"
  by (induction w arbitrary: run) auto

lemma scan_words_split:
  "\<not> is_word_char c \<Longrightarrow> scan_words run (a @ c # b) = scan_words run a @ scan_words [] b"
  by (induction a arbitrary: run) auto

lemma findall_words_Nil: "findall_words [] = []"
  by (simp add: findall_words_def)

lemma findall_words_run:
  "w \<noteq> [] \<Longrightarrow> \<forall>c\<in>set w. is_word_char c \<Longrightarrow> findall_words w = [w]"
  by (simp add: findall_words_def scan_words_run)

lemma findall_words_split:
  "\<not> is_word_char c \<Longrightarrow> findall_words (a @ c # b) = findall_words a @ findall_words b"
  by (simp add: findall_words_def scan_words_split)

lemma findall_words_tokens:
  "w \<in> set (findall_words s) \<Longrightarrow> w \<noteq> [] \<and> set w \<subseteq> set s \<and> (\<forall>c\<in>set w. is_word_char c)"
  using scan_words_tokens[of w "[]" s] scan_words_word_chars[of w "[]" s]
  by (auto simp: findall_words_def)

lemma fold_append_filter:
  "fold (\<lambda>x acc. if P x then acc @ [x] else acc) xs acc0 = acc0 @ filter P xs"
  by (induction xs arbitrary: acc0) auto

lemma detect_slang_words_filter:
  "detect_slang_words v V = filter (\<lambda>w. w \<in> V) (findall_words (lower (py_str v)))"
  by (simp add: detect_slang_words_def fold_append_filter)

lemma count_list_filter_mem:
  "count_list (filter P xs) w = (if P w then count_list xs w else 0)"
  by (induction xs) auto

subsection \<open>Counters\<close>

lemma map_of_counter_inc:
  "map_of (counter_inc k c) = (map_of c)(k \<mapsto> counter_get c k + 1)"
  by (induction k c rule: counter_inc.induct) (auto simp: counter_get_def fun_eq_iff)

lemma counter_get_inc:
  "counter_get (counter_inc k c) k' = counter_get c k' + (if k' = k then 1 else 0)"
  by (simp add: counter_get_def map_of_counter_inc)

lemma keys_counter_inc: "fst ` set (counter_inc k c) = insert k (fst ` set c)"
  by (induction k c rule: counter_inc.induct) auto

lemma distinct_counter_inc:
  "distinct (map fst c) \<Longrightarrow> distinct (map fst (counter_inc k c))"
  by (induction k c rule: counter_inc.induct) (auto simp: keys_counter_inc)

lemma sum_counter_inc: "sum_list (map snd (counter_inc k c)) = sum_list (map snd c) + 1"
  by (induction k c rule: counter_inc.induct) auto

lemma counter_update_Nil: "counter_update [] c = c"
  by (simp add: counter_update_def)

lemma counter_update_Cons: "counter_update (k # ks) c = counter_update ks (counter_inc k c)"
  by (simp add: counter_update_def)

lemma counter_update_append:
  "counter_update (xs @ ys) c = counter_update ys (counter_update xs c)"
  by (simp add: counter_update_def)

lemma counter_update_snoc: "counter_update (ks @ [k]) c = counter_inc k (counter_update ks c)"
  by (simp add: counter_update_def)

lemma counter_get_update:
  "counter_get (counter_update ks c) k = counter_get c k + count_list ks k"
  by (induction ks arbitrary: c) (auto simp: counter_update_Nil counter_update_Cons counter_get_inc)

lemma keys_counter_update: "fst ` set (counter_update ks c) = fst ` set c \<union> set ks"
  by (induction ks arbitrary: c) (auto simp: counter_update_Nil counter_update_Cons keys_counter_inc)

lemma distinct_counter_update:
  "distinct (map fst c) \<Longrightarrow> distinct (map fst (counter_update ks c))"
  by (induction ks arbitrary: c) (auto simp: counter_update_Nil counter_update_Cons distinct_counter_inc)

lemma sum_counter_update:
  "sum_list (map snd (counter_update ks c)) = sum_list (map snd c) + length ks"
  by (induction ks arbitrary: c) (auto simp: counter_update_Nil counter_update_Cons sum_counter_inc)

lemma map_of_counter_update:
  "map_of (counter_update ks []) k = (if k \<in> set ks then Some (count_list ks k) else None)"
proof (cases "k \<in> set ks")
  case True
  then have "k \<in> fst ` set (counter_update ks [])"
    by (simp add: keys_counter_update)
  then obtain n where n: "map_of (counter_update ks []) k = Some n"
    by (metis domIff dom_map_of_conv_image_fst not_Some_eq)
  have "counter_get [] k = 0"
    by (simp add: counter_get_def)
  then have g: "counter_get (counter_update ks []) k = count_list ks k"
    by (simp only: counter_get_update)
  from n have "counter_get (counter_update ks []) k = n"
    by (simp add: counter_get_def)
  with g n True show ?thesis by simp
next
  case False
  then have "k \<notin> fst ` set (counter_update ks [])"
    by (simp add: keys_counter_update)
  then have "map_of (counter_update ks []) k = None"
    by (simp add: map_of_eq_None_iff)
  with False show ?thesis by simp
qed

lemma count_list_mset: "mset xs = mset ys \<Longrightarrow> count_list xs k = count_list ys k"
  by (metis count_mset)

lemma map_of_counter_update_perm:
  assumes "mset ks' = mset ks"
  shows "map_of (counter_update ks' []) = map_of (counter_update ks [])"
proof
  fix k
  have "set ks' = set ks" using assms by (rule mset_eq_setD)
  moreover have "count_list ks' k = count_list ks k" using assms by (rule count_list_mset)
  ultimately show "map_of (counter_update ks' []) k = map_of (counter_update ks []) k"
    by (simp add: map_of_counter_update)
qed

lemma map_of_sort_key:
  assumes "distinct (map fst c)"
  shows "map_of (sort_key f c) = map_of c"
proof -
  have "distinct (map fst (sort_key f c))"
    using assms by (metis distinct_map distinct_sort set_sort)
  moreover have "set (sort_key f c) = set c" by simp
  ultimately show ?thesis using assms by (simp add: map_of_inject_set)
qed

lemma map_of_value_counts:
  "map_of (value_counts col) = map_of (counter_update (filter (\<lambda>v. v \<noteq> NaN) col) [])"
  unfolding value_counts_def by (rule map_of_sort_key) (simp add: distinct_counter_update)

lemma sum_value_counts:
  "sum_list (map snd (value_counts col)) = length (filter (\<lambda>v. v \<noteq> NaN) col)"
proof -
  let ?c = "counter_update (filter (\<lambda>v. v \<noteq> NaN) col) []"
  have "mset (map snd (value_counts col)) = mset (map snd ?c)"
    by (simp add: value_counts_def)
  then have "sum_list (map snd (value_counts col)) = sum_list (map snd ?c)"
    by (metis sum_mset_sum_list)
  then show ?thesis by (simp add: sum_counter_update)
qed

subsection \<open>Columns\<close>

lemma dropna_Nil: "dropna [] = []"
  by (simp add: dropna_def)

lemma dropna_Cons: "dropna (v # col) = (case v of Some x \<Rightarrow> x # dropna col | None \<Rightarrow> dropna col)"
  by (simp add: dropna_def split: option.splits)

lemma set_dropna: "set (dropna col) = {d. Some d \<in> set col}"
  by (induction col) (auto simp: dropna_Nil dropna_Cons split: option.splits)

lemma mset_dropna: "mset (dropna col) = {#the v. v \<in># filter_mset (\<lambda>v. v \<noteq> None) (mset col)#}"
  by (induction col) (auto simp: dropna_Nil dropna_Cons split: option.splits)

lemma dropna_filter: "dropna (filter (\<lambda>v. v \<noteq> None) col) = dropna col"
  by (induction col) (auto simp: dropna_Nil dropna_Cons split: option.splits)

lemma series_min_Min:
  "series_min col = (if dropna col = [] then None else Some (Min (set (dropna col))))"
  by (cases "dropna col") (simp_all add: series_min_def Min.set_eq_fold [symmetric])

lemma series_max_Max:
  "series_max col = (if dropna col = [] then None else Some (Max (set (dropna col))))"
  by (cases "dropna col") (simp_all add: series_max_def Max.set_eq_fold [symmetric])

lemma groupby_size_perm:
  assumes "mset col' = mset col"
  shows "groupby_size col' = groupby_size col"
proof -
  have m: "mset (dropna col') = mset (dropna col)"
    using assms by (simp add: mset_dropna)
  then have "set (dropna col') = set (dropna col)"
    by (rule mset_eq_setD)
  moreover have "\<And>d. count_list (dropna col') d = count_list (dropna col) d"
    using m by (rule count_list_mset)
  ultimately show ?thesis
    by (simp add: groupby_size_def Let_def)
qed

lemma series_min_perm:
  assumes "mset col' = mset col"
  shows "series_min col' = series_min col"
proof -
  have "mset (dropna col') = mset (dropna col)"
    using assms by (simp add: mset_dropna)
  then have "set (dropna col') = set (dropna col)"
    by (rule mset_eq_setD)
  then show ?thesis
    by (simp add: series_min_Min flip: set_empty)
qed

lemma series_max_perm:
  assumes "mset col' = mset col"
  shows "series_max col' = series_max col"
proof -
  have "mset (dropna col') = mset (dropna col)"
    using assms by (simp add: mset_dropna)
  then have "set (dropna col') = set (dropna col)"
    by (rule mset_eq_setD)
  then show ?thesis
    by (simp add: series_max_Max flip: set_empty)
qed

subsection \<open>The loop of the aggregator\<close>

lemma analyze_row_basic:
  "total_berita (analyze_row V r st) = total_berita st"
  "periode (analyze_row V r st) = periode st"
  "sumber_berita (analyze_row V r st) = sumber_berita st"
  "top_tags (analyze_row V r st) = top_tags st"
  "berita_per_hari (analyze_row V r st) = berita_per_hari st"
  by (simp_all add: analyze_row_def Let_def)

lemma analyze_row_judul:
  "berita_dengan_gaul_judul (analyze_row V r st) =
     berita_dengan_gaul_judul st + (if detect_slang_words (Judul r) V \<noteq> [] then 1 else 0)"
  by (simp add: analyze_row_def Let_def)

lemma analyze_row_konten:
  "berita_dengan_gaul_konten (analyze_row V r st) =
     berita_dengan_gaul_konten st + (if detect_slang_words (Content r) V \<noteq> [] then 1 else 0)"
  by (simp add: analyze_row_def Let_def)

lemma analyze_row_frekuensi:
  "frekuensi_kata_gaul (analyze_row V r st) =
     counter_update (detect_slang_words (Content r) V)
       (counter_update (detect_slang_words (Judul r) V) (frekuensi_kata_gaul st))"
  by (simp add: analyze_row_def Let_def counter_update_Nil)

lemma analyze_row_per_sumber:
  "berita_gaul_per_sumber (analyze_row V r st) =
     (if has_slang V r then counter_inc (Source r) (berita_gaul_per_sumber st)
      else berita_gaul_per_sumber st)"
  by (simp add: analyze_row_def Let_def has_slang_def)

lemma analyze_row_contoh:
  "contoh_berita_gaul (analyze_row V r st) =
     (if has_slang V r \<and> length (contoh_berita_gaul st) < 5
      then contoh_berita_gaul st @ [example_of V r]
      else contoh_berita_gaul st)"
  by (simp add: analyze_row_def Let_def has_slang_def example_of_def)

lemma fold_analyze_basic:
  "total_berita (fold (analyze_row V) rows st) = total_berita st \<and>
   periode (fold (analyze_row V) rows st) = periode st \<and>
   sumber_berita (fold (analyze_row V) rows st) = sumber_berita st \<and>
   top_tags (fold (analyze_row V) rows st) = top_tags st \<and>
   berita_per_hari (fold (analyze_row V) rows st) = berita_per_hari st"
  by (induction rows arbitrary: st) (simp_all add: analyze_row_basic)

lemma fold_analyze_judul:
  "berita_dengan_gaul_judul (fold (analyze_row V) rows st) =
     berita_dengan_gaul_judul st +
     length (filter (\<lambda>r. detect_slang_words (Judul r) V \<noteq> []) rows)"
  by (induction rows arbitrary: st) (simp_all add: analyze_row_judul)

lemma fold_analyze_konten:
  "berita_dengan_gaul_konten (fold (analyze_row V) rows st) =
     berita_dengan_gaul_konten st +
     length (filter (\<lambda>r. detect_slang_words (Content r) V \<noteq> []) rows)"
  by (induction rows arbitrary: st) (simp_all add: analyze_row_konten)

lemma fold_analyze_frekuensi:
  "frekuensi_kata_gaul (fold (analyze_row V) rows st) =
     counter_update (concat (map (row_words V) rows)) (frekuensi_kata_gaul st)"
  by (induction rows arbitrary: st)
     (simp_all add: analyze_row_frekuensi counter_update_Nil counter_update_append row_words_def)

lemma fold_analyze_per_sumber:
  "berita_gaul_per_sumber (fold (analyze_row V) rows st) =
     counter_update (map Source (filter (has_slang V) rows)) (berita_gaul_per_sumber st)"
  by (induction rows arbitrary: st)
     (simp_all add: analyze_row_per_sumber counter_update_Nil counter_update_Cons)

lemma fold_analyze_contoh:
  "contoh_berita_gaul (fold (analyze_row V) rows st) =
     contoh_berita_gaul st @
     take (5 - length (contoh_berita_gaul st)) (map (example_of V) (filter (has_slang V) rows))"
proof (induction rows arbitrary: st)
  case Nil
  show ?case by simp
next
  case (Cons r rows)
  show ?case
  proof (cases "has_slang V r \<and> length (contoh_berita_gaul st) < 5")
    case True
    then have "5 - length (contoh_berita_gaul st) = Suc (4 - length (contoh_berita_gaul st))"
      by arith
    moreover have "5 - Suc (length (contoh_berita_gaul st)) = 4 - length (contoh_berita_gaul st)"
      by arith
    ultimately show ?thesis
      using True by (simp add: Cons.IH analyze_row_contoh)
  next
    case False
    then show ?thesis
      by (auto simp: Cons.IH analyze_row_contoh)
  qed
qed

lemma analyze_with_fields:
  "total_berita (analyze_with V df) = length df"
  "periode (analyze_with V df) = (series_min (map Waktu df), series_max (map Waktu df))"
  "sumber_berita (analyze_with V df) = value_counts (map Source df)"
  "berita_per_hari (analyze_with V df) = groupby_size (map Waktu df)"
  "berita_dengan_gaul_judul (analyze_with V df) =
     length (filter (\<lambda>r. detect_slang_words (Judul r) V \<noteq> []) df)"
  "berita_dengan_gaul_konten (analyze_with V df) =
     length (filter (\<lambda>r. detect_slang_words (Content r) V \<noteq> []) df)"
  "frekuensi_kata_gaul (analyze_with V df) = counter_update (concat (map (row_words V) df)) []"
  "berita_gaul_per_sumber (analyze_with V df) =
     counter_update (map Source (filter (has_slang V) df)) []"
  "contoh_berita_gaul (analyze_with V df) =
     map (example_of V) (take 5 (filter (has_slang V) df))"
  by (simp_all add: analyze_with_def fold_analyze_basic fold_analyze_judul fold_analyze_konten
      fold_analyze_frekuensi fold_analyze_per_sumber fold_analyze_contoh basic_analysis_def
      take_map)

subsection \<open>Totals of counters, permuted tables, null timestamps\<close>

lemma map_of_le_sum: "map_of c k = Some (n::nat) \<Longrightarrow> n \<le> sum_list (map snd c)"
  by (induction c) (auto split: if_splits simp: trans_le_add2)

lemma counter_get_le_sum: "counter_get c k \<le> sum_list (map snd c)"
  by (cases "map_of c k") (simp_all add: counter_get_def map_of_le_sum)

lemma count_list_concat_map:
  "count_list (concat (map f xs)) w = (\<Sum>x\<leftarrow>xs. count_list (f x) w)"
  by (induction xs) simp_all

lemma count_list_pos: "w \<in> set xs \<Longrightarrow> 0 < count_list xs w"
  by (induction xs) auto

lemma counter_get_Nil: "counter_get [] k = 0"
  by (simp add: counter_get_def)

lemma mset_concat_map:
  "mset (concat (map f xs)) = (\<Sum>x\<in>#mset xs. mset (f x))"
  by (induction xs) simp_all

lemma concat_map_perm:
  "mset xs = mset ys \<Longrightarrow> mset (concat (map f xs)) = mset (concat (map f ys))"
  by (simp add: mset_concat_map)

lemma length_filter_perm:
  assumes "mset xs = mset ys"
  shows "length (filter P xs) = length (filter P ys)"
proof -
  have "mset (filter P xs) = mset (filter P ys)"
    using assms by simp
  then show ?thesis by (rule mset_eq_length)
qed

lemma map_filter_perm:
  assumes "mset xs = mset ys"
  shows "mset (map f (filter P xs)) = mset (map f (filter P ys))"
  using assms by simp

lemma map_perm: "mset xs = mset ys \<Longrightarrow> mset (map f xs) = mset (map f ys)"
  by simp

lemma map_of_value_counts_perm:
  assumes "mset col' = mset col"
  shows "map_of (value_counts col') = map_of (value_counts col)"
proof -
  have "mset (filter (\<lambda>v. v \<noteq> NaN) col') = mset (filter (\<lambda>v. v \<noteq> NaN) col)"
    using assms by simp
  then show ?thesis
    unfolding map_of_value_counts by (rule map_of_counter_update_perm)
qed

lemma Waktu_parse_dates: "Waktu (parse_dates r) = to_datetime (Waktu r)"
  by (simp add: parse_dates_def)

lemma isnull_sum_parse_dates:
  "isnull_sum (map parse_dates raw) = length (filter (\<lambda>r. to_datetime (Waktu r) = None) raw)"
  by (simp add: isnull_sum_def filter_map comp_def Waktu_parse_dates)

lemma dropna_Waktu_filter:
  "dropna (map Waktu (filter (\<lambda>r. Waktu r \<noteq> None) df)) = dropna (map Waktu df)"
  by (induction df) (auto simp: dropna_Nil dropna_Cons split: option.splits)

subsection \<open>The example scenario and dead entries\<close>

lemma tokens_gue_suka_banget:
  "findall_words (lower (py_str (Text ''Gue Suka Banget''))) = [''gue'', ''suka'', ''banget'']"
  by code_simp

lemma tokens_berita_biasa:
  "findall_words (lower (py_str (Text ''Berita biasa''))) = [''berita'', ''biasa'']"
  by code_simp

lemma findall_words_only_word_chars:
  "c \<in> set w \<Longrightarrow> \<not> is_word_char c \<Longrightarrow> w \<notin> set (findall_words s)"
  using findall_words_tokens [of w s] by blast

lemma detect_slang_words_dead_entry:
  assumes "c \<in> set w" "\<not> is_word_char c"
  shows "detect_slang_words v (V - {w}) = detect_slang_words v V"
proof -
  have "\<And>t. t \<in> set (findall_words (lower (py_str v))) \<Longrightarrow> (t \<in> V - {w}) = (t \<in> V)"
    using findall_words_only_word_chars [OF assms] by auto
  then show ?thesis
    unfolding detect_slang_words_filter by (rule filter_cong [OF refl])
qed

lemma analyze_row_dead_entry:
  assumes "c \<in> set w" "\<not> is_word_char c"
  shows "analyze_row (V - {w}) = analyze_row V"
  by (intro ext) (simp add: analyze_row_def detect_slang_words_dead_entry [OF assms])

lemma blank_not_word_char: "\<not> is_word_char CHR '' ''"
  by code_simp

lemma count_list_zero: "w \<notin> set xs \<Longrightarrow> count_list xs w = 0"
  by (induction xs) auto

subsection \<open>The tag selection\<close>


lemma descending_counts_ties_either_way:
  "descending_counts [Text ''a'', Text ''b''] [(Text ''a'', 1), (Text ''b'', 1)] \<and>
   descending_counts [Text ''a'', Text ''b''] [(Text ''b'', 1), (Text ''a'', 1)]"
  by (simp add: descending_counts_def counter_update_def)







section \<open>The properties\<close>

text \<open>
  Claim C1. The detector lower-cases the text of the value, takes the runs of word
  characters as tokens and returns the tokens that are in the vocabulary, in their
  order and with their repetitions: the result is a subsequence of the tokens, holds
  the tokens that are in the vocabulary and no other, each as often as it occurs, and
  every returned token is a non-empty run of word characters without upper-case letter.
\<close>

theorem detect_slang_words_spec:
  "detect_slang_words v V = filter (\<lambda>w. w \<in> V) (findall_words (lower (py_str v))) \<and>
   subseq (detect_slang_words v V) (findall_words (lower (py_str v))) \<and>
   set (detect_slang_words v V) = set (findall_words (lower (py_str v))) \<inter> V \<and>
   (\<forall>w\<in>V. count_list (detect_slang_words v V) w =
             count_list (findall_words (lower (py_str v))) w) \<and>
   (\<forall>w\<in>set (detect_slang_words v V).
      w \<noteq> [] \<and> (\<forall>c\<in>set w. is_word_char c \<and> \<not> is_upper_char c))"
proof -
  let ?ts = "findall_words (lower (py_str v))"
  have eq: "detect_slang_words v V = filter (\<lambda>w. w \<in> V) ?ts"
    by (rule detect_slang_words_filter)
  have sub: "subseq (detect_slang_words v V) ?ts"
    by (simp add: eq)
  have st: "set (detect_slang_words v V) = set ?ts \<inter> V"
    by (auto simp: eq)
  have cnt: "\<forall>w\<in>V. count_list (detect_slang_words v V) w = count_list ?ts w"
    by (simp add: eq count_list_filter_mem)
  have low: "\<forall>w\<in>set (detect_slang_words v V).
      w \<noteq> [] \<and> (\<forall>c\<in>set w. is_word_char c \<and> \<not> is_upper_char c)"
  proof
    fix w assume "w \<in> set (detect_slang_words v V)"
    then have "w \<in> set ?ts" by (simp add: st)
    then have t: "w \<noteq> [] \<and> set w \<subseteq> set (lower (py_str v)) \<and> (\<forall>c\<in>set w. is_word_char c)"
      by (rule findall_words_tokens)
    then show "w \<noteq> [] \<and> (\<forall>c\<in>set w. is_word_char c \<and> \<not> is_upper_char c)"
      using lower_no_upper by blast
  qed
  from eq sub st cnt low show ?thesis by blast
qed

theorem detect_slang_words_spec_witness:
  "detect_slang_words (Text ''Gue suka BANGET, gue_2 gue!'') {''gue'', ''banget''} =
     [''gue'', ''banget'', ''gue'']"
proof -
  have "findall_words (lower (py_str (Text ''Gue suka BANGET, gue_2 gue!''))) =
      [''gue'', ''suka'', ''banget'', ''gue_2'', ''gue'']"
    by code_simp
  then show ?thesis
    using detect_slang_words_spec [of "Text ''Gue suka BANGET, gue_2 gue!''" "{''gue'', ''banget''}"]
    by simp
qed

text \<open>
  Claim C2, as the code has it. \<open>value_counts\<close> drops the rows whose source is
  missing, so the per-source row counts add up to the number of rows that have a source.
  That sum is at most the total row count, and is the total row count when no row lacks
  its source. A table of one row without source has total 1 and sum 0.
\<close>

theorem sumber_berita_sum_counterexample:
  "sum_list (map snd (sumber_berita (analyze_news_and_slang
      [mk_row (Text ''Berita biasa'') None (Text ''isi'') NaN])))
   \<noteq> total_berita (analyze_news_and_slang
      [mk_row (Text ''Berita biasa'') None (Text ''isi'') NaN])"
  by (simp add: analyze_news_and_slang_def analyze_with_fields sum_value_counts mk_row_def)

theorem sumber_berita_sum:
  "sum_list (map snd (sumber_berita (analyze_news_and_slang df))) =
     length (filter (\<lambda>r. Source r \<noteq> NaN) df) \<and>
   sum_list (map snd (sumber_berita (analyze_news_and_slang df))) \<le>
     total_berita (analyze_news_and_slang df) \<and>
   ((\<forall>r\<in>set df. Source r \<noteq> NaN) \<longrightarrow>
      sum_list (map snd (sumber_berita (analyze_news_and_slang df))) =
        total_berita (analyze_news_and_slang df))"
proof -
  have s: "sum_list (map snd (sumber_berita (analyze_news_and_slang df))) =
      length (filter (\<lambda>r. Source r \<noteq> NaN) df)"
    by (simp add: analyze_news_and_slang_def analyze_with_fields sum_value_counts filter_map
        comp_def)
  have t: "total_berita (analyze_news_and_slang df) = length df"
    by (simp add: analyze_news_and_slang_def analyze_with_fields)
  have "length (filter (\<lambda>r. Source r \<noteq> NaN) df) \<le> length df"
    by (rule length_filter_le)
  moreover have "(\<forall>r\<in>set df. Source r \<noteq> NaN) \<longrightarrow>
      length (filter (\<lambda>r. Source r \<noteq> NaN) df) = length df"
    by simp
  ultimately show ?thesis using s t by simp
qed

theorem sumber_berita_sum_witness:
  "sum_list (map snd (sumber_berita (analyze_news_and_slang
      [mk_row (Text ''a'') None (Text ''b'') (Text ''Detik''),
       mk_row (Text ''c'') None (Text ''d'') NaN,
       mk_row (Text ''e'') None (Text ''f'') (Text ''Tempo'')]))) = 2 \<and>
   sum_list (map snd (sumber_berita (analyze_news_and_slang
      [mk_row (Text ''a'') None (Text ''b'') (Text ''Detik''),
       mk_row (Text ''e'') None (Text ''f'') (Text ''Tempo'')]))) =
   total_berita (analyze_news_and_slang
      [mk_row (Text ''a'') None (Text ''b'') (Text ''Detik''),
       mk_row (Text ''e'') None (Text ''f'') (Text ''Tempo'')])"
  using sumber_berita_sum [of "[mk_row (Text ''a'') None (Text ''b'') (Text ''Detik''),
       mk_row (Text ''c'') None (Text ''d'') NaN,
       mk_row (Text ''e'') None (Text ''f'') (Text ''Tempo'')]"]
    sumber_berita_sum [of "[mk_row (Text ''a'') None (Text ''b'') (Text ''Detik''),
       mk_row (Text ''e'') None (Text ''f'') (Text ''Tempo'')]"]
  by (simp add: mk_row_def)

text \<open>
  Claim C4. The example list is the list of the example records of the first five
  slang-bearing rows of the table, in table order (of all of them when there are fewer
  than five), so it has at most five records; the record of a row holds its title, its
  timestamp, its source and the set of the words matched in its title or its content.
\<close>

theorem contoh_berita_gaul_first_five:
  "contoh_berita_gaul (analyze_news_and_slang df) =
     map (example_of slang_dictionary) (take 5 (filter (has_slang slang_dictionary) df)) \<and>
   length (contoh_berita_gaul (analyze_news_and_slang df)) \<le> 5"
  by (simp add: analyze_news_and_slang_def analyze_with_fields)

theorem contoh_berita_gaul_first_five_witness:
  "contoh_berita_gaul (analyze_news_and_slang sample_table) =
       [\<lparr>judul = Text ''Gue Suka Banget'', waktu = Some (2024, 1, 5), source = Text ''Detik'',
         kata_gaul = {''gue'', ''banget''}\<rparr>,
        \<lparr>judul = Text ''Rapat kabinet'', waktu = Some (2024, 1, 6), source = NaN,
         kata_gaul = {''nggak''}\<rparr>,
        \<lparr>judul = Text ''Viral!'', waktu = Some (2024, 1, 7), source = Text ''Kompas'',
         kata_gaul = {''viral'', ''banget''}\<rparr>,
        \<lparr>judul = NaN, waktu = Some (2024, 1, 8), source = Text ''Detik'',
         kata_gaul = {''dong''}\<rparr>,
        \<lparr>judul = Text ''Sultan'', waktu = None, source = Text ''Tempo'',
         kata_gaul = {''sultan''}\<rparr>]"
proof -
  have "map (example_of slang_dictionary) (take 5 (filter (has_slang slang_dictionary) sample_table)) =
       [\<lparr>judul = Text ''Gue Suka Banget'', waktu = Some (2024, 1, 5), source = Text ''Detik'',
         kata_gaul = {''gue'', ''banget''}\<rparr>,
        \<lparr>judul = Text ''Rapat kabinet'', waktu = Some (2024, 1, 6), source = NaN,
         kata_gaul = {''nggak''}\<rparr>,
        \<lparr>judul = Text ''Viral!'', waktu = Some (2024, 1, 7), source = Text ''Kompas'',
         kata_gaul = {''viral'', ''banget''}\<rparr>,
        \<lparr>judul = NaN, waktu = Some (2024, 1, 8), source = Text ''Detik'',
         kata_gaul = {''dong''}\<rparr>,
        \<lparr>judul = Text ''Sultan'', waktu = None, source = Text ''Tempo'',
         kata_gaul = {''sultan''}\<rparr>]"
    by code_simp
  then show ?thesis
    using contoh_berita_gaul_first_five [of sample_table] by simp
qed

text \<open>
  Claim C5. Processing a row adds to the count of a word its occurrences among the
  title matches and its occurrences among the content matches, each on its own; a word
  matched in both fields gains at least two. After the whole pass the count of a word
  is the sum over the rows of its title and content occurrences, the counts add up to
  the number of all title and content detections, and that total is at least the count
  of any single word.
\<close>

theorem frekuensi_counts_both_fields:
  "counter_get (frekuensi_kata_gaul (analyze_row V r st)) w =
     counter_get (frekuensi_kata_gaul st) w +
     count_list (detect_slang_words (Judul r) V) w +
     count_list (detect_slang_words (Content r) V) w \<and>
   (w \<in> set (detect_slang_words (Judul r) V) \<and> w \<in> set (detect_slang_words (Content r) V) \<longrightarrow>
      counter_get (frekuensi_kata_gaul st) w + 2 \<le>
        counter_get (frekuensi_kata_gaul (analyze_row V r st)) w) \<and>
   counter_get (frekuensi_kata_gaul (analyze_with V df)) w =
     (\<Sum>r\<leftarrow>df. count_list (detect_slang_words (Judul r) V) w +
                count_list (detect_slang_words (Content r) V) w) \<and>
   sum_list (map snd (frekuensi_kata_gaul (analyze_with V df))) =
     (\<Sum>r\<leftarrow>df. length (detect_slang_words (Judul r) V) +
                length (detect_slang_words (Content r) V)) \<and>
   counter_get (frekuensi_kata_gaul (analyze_with V df)) w \<le>
     sum_list (map snd (frekuensi_kata_gaul (analyze_with V df)))"
proof -
  let ?t = "detect_slang_words (Judul r) V" and ?c = "detect_slang_words (Content r) V"
  have step: "counter_get (frekuensi_kata_gaul (analyze_row V r st)) w =
      counter_get (frekuensi_kata_gaul st) w + count_list ?t w + count_list ?c w"
    by (simp add: analyze_row_frekuensi counter_get_update)
  have both: "w \<in> set ?t \<and> w \<in> set ?c \<longrightarrow>
      counter_get (frekuensi_kata_gaul st) w + 2 \<le>
        counter_get (frekuensi_kata_gaul (analyze_row V r st)) w"
  proof
    assume "w \<in> set ?t \<and> w \<in> set ?c"
    then have "0 < count_list ?t w" and "0 < count_list ?c w"
      by (simp_all add: count_list_pos)
    then show "counter_get (frekuensi_kata_gaul st) w + 2 \<le>
        counter_get (frekuensi_kata_gaul (analyze_row V r st)) w"
      unfolding step by arith
  qed
  have whole: "counter_get (frekuensi_kata_gaul (analyze_with V df)) w =
      (\<Sum>r\<leftarrow>df. count_list (detect_slang_words (Judul r) V) w +
                 count_list (detect_slang_words (Content r) V) w)"
    by (simp add: analyze_with_fields counter_get_update counter_get_Nil
        count_list_concat_map row_words_def)
  have total: "sum_list (map snd (frekuensi_kata_gaul (analyze_with V df))) =
      (\<Sum>r\<leftarrow>df. length (detect_slang_words (Judul r) V) +
                 length (detect_slang_words (Content r) V))"
    by (simp add: analyze_with_fields sum_counter_update length_concat row_words_def comp_def)
  have le: "counter_get (frekuensi_kata_gaul (analyze_with V df)) w \<le>
      sum_list (map snd (frekuensi_kata_gaul (analyze_with V df)))"
    by (rule counter_get_le_sum)
  from step both whole total le show ?thesis by blast
qed

theorem frekuensi_counts_both_fields_witness:
  "counter_get (frekuensi_kata_gaul (analyze_with slang_dictionary
      [mk_row (Text ''Gue banget'') None (Text ''kata gue, gue lagi'') (Text ''Detik'')])) ''gue'' = 3 \<and>
   sum_list (map snd (frekuensi_kata_gaul (analyze_with slang_dictionary
      [mk_row (Text ''Gue banget'') None (Text ''kata gue, gue lagi'') (Text ''Detik'')]))) = 4"
proof -
  let ?r = "mk_row (Text ''Gue banget'') None (Text ''kata gue, gue lagi'') (Text ''Detik'')"
  have t: "detect_slang_words (Judul ?r) slang_dictionary = [''gue'', ''banget'']"
    by code_simp
  have c: "detect_slang_words (Content ?r) slang_dictionary = [''gue'', ''gue'']"
    by code_simp
  show ?thesis
    using frekuensi_counts_both_fields [of slang_dictionary ?r "basic_analysis [?r]" "''gue''" "[?r]"]
    by (simp add: t c)
qed

text \<open>
  Claim C6. A table with the same rows in another order gives the same total row
  count, the same title and content counters, the same slang-word frequency mapping,
  the same per-source slang-article counts, the same per-source row counts and the same
  per-day counts (and the same date range). The three mappings are compared as
  dictionaries: the same keys with the same counts, whatever the order of the entries.
\<close>

theorem aggregate_counts_row_order:
  assumes "mset df' = mset df"
  shows "total_berita (analyze_news_and_slang df') = total_berita (analyze_news_and_slang df) \<and>
    berita_dengan_gaul_judul (analyze_news_and_slang df') =
      berita_dengan_gaul_judul (analyze_news_and_slang df) \<and>
    berita_dengan_gaul_konten (analyze_news_and_slang df') =
      berita_dengan_gaul_konten (analyze_news_and_slang df) \<and>
    map_of (frekuensi_kata_gaul (analyze_news_and_slang df')) =
      map_of (frekuensi_kata_gaul (analyze_news_and_slang df)) \<and>
    map_of (berita_gaul_per_sumber (analyze_news_and_slang df')) =
      map_of (berita_gaul_per_sumber (analyze_news_and_slang df)) \<and>
    map_of (sumber_berita (analyze_news_and_slang df')) =
      map_of (sumber_berita (analyze_news_and_slang df)) \<and>
    berita_per_hari (analyze_news_and_slang df') = berita_per_hari (analyze_news_and_slang df) \<and>
    periode (analyze_news_and_slang df') = periode (analyze_news_and_slang df)"
proof -
  let ?V = slang_dictionary
  have total: "total_berita (analyze_with ?V df') = total_berita (analyze_with ?V df)"
    unfolding analyze_with_fields using assms by (rule mset_eq_length)
  have judul: "berita_dengan_gaul_judul (analyze_with ?V df') =
      berita_dengan_gaul_judul (analyze_with ?V df)"
    unfolding analyze_with_fields using assms by (rule length_filter_perm)
  have konten: "berita_dengan_gaul_konten (analyze_with ?V df') =
      berita_dengan_gaul_konten (analyze_with ?V df)"
    unfolding analyze_with_fields using assms by (rule length_filter_perm)
  have "mset (concat (map (row_words ?V) df')) = mset (concat (map (row_words ?V) df))"
    using assms by (rule concat_map_perm)
  then have frek: "map_of (frekuensi_kata_gaul (analyze_with ?V df')) =
      map_of (frekuensi_kata_gaul (analyze_with ?V df))"
    unfolding analyze_with_fields by (rule map_of_counter_update_perm)
  have "mset (map Source (filter (has_slang ?V) df')) =
      mset (map Source (filter (has_slang ?V) df))"
    using assms by (rule map_filter_perm)
  then have gaul: "map_of (berita_gaul_per_sumber (analyze_with ?V df')) =
      map_of (berita_gaul_per_sumber (analyze_with ?V df))"
    unfolding analyze_with_fields by (rule map_of_counter_update_perm)
  have "mset (map Source df') = mset (map Source df)"
    using assms by (rule map_perm)
  then have sumber: "map_of (sumber_berita (analyze_with ?V df')) =
      map_of (sumber_berita (analyze_with ?V df))"
    unfolding analyze_with_fields by (rule map_of_value_counts_perm)
  have w: "mset (map Waktu df') = mset (map Waktu df)"
    using assms by (rule map_perm)
  then have hari: "berita_per_hari (analyze_with ?V df') = berita_per_hari (analyze_with ?V df)"
    unfolding analyze_with_fields by (rule groupby_size_perm)
  have per: "periode (analyze_with ?V df') = periode (analyze_with ?V df)"
    unfolding analyze_with_fields
    using series_min_perm [OF w] series_max_perm [OF w] by simp
  show ?thesis
    unfolding analyze_news_and_slang_def
    by (intro conjI total judul konten frek gaul sumber hari per)
qed

theorem aggregate_counts_row_order_witness:
  "total_berita (analyze_news_and_slang (rev sample_table)) =
     total_berita (analyze_news_and_slang sample_table) \<and>
   berita_dengan_gaul_judul (analyze_news_and_slang (rev sample_table)) =
     berita_dengan_gaul_judul (analyze_news_and_slang sample_table) \<and>
   berita_dengan_gaul_konten (analyze_news_and_slang (rev sample_table)) =
     berita_dengan_gaul_konten (analyze_news_and_slang sample_table) \<and>
   map_of (frekuensi_kata_gaul (analyze_news_and_slang (rev sample_table))) =
     map_of (frekuensi_kata_gaul (analyze_news_and_slang sample_table)) \<and>
   map_of (berita_gaul_per_sumber (analyze_news_and_slang (rev sample_table))) =
     map_of (berita_gaul_per_sumber (analyze_news_and_slang sample_table)) \<and>
   map_of (sumber_berita (analyze_news_and_slang (rev sample_table))) =
     map_of (sumber_berita (analyze_news_and_slang sample_table)) \<and>
   berita_per_hari (analyze_news_and_slang (rev sample_table)) =
     berita_per_hari (analyze_news_and_slang sample_table) \<and>
   periode (analyze_news_and_slang (rev sample_table)) = periode (analyze_news_and_slang sample_table)"
proof -
  have "mset (rev sample_table) = mset sample_table"
    by (rule mset_rev)
  then show ?thesis
    by (rule aggregate_counts_row_order)
qed

text \<open>
  Claim C7. When the file can be read, loading returns the table with every row of
  the file; a timestamp that does not parse (as \<open>31/02/2024\<close>) is null in it; the
  count of invalid dates is the number of the values that do not parse, each counted
  once, and the warning prints it; the date range of the aggregator is the range of the
  table without its null-timestamp rows: the least and the greatest of the parsed dates.
\<close>

theorem invalid_dates_become_null:
  assumes "fs file_path = Inr raw"
  shows "snd (load_data fs file_path) = Some (map parse_dates raw) \<and>
    (\<forall>r\<in>set raw. to_datetime (Waktu r) = None \<longrightarrow> Waktu (parse_dates r) = None) \<and>
    to_datetime (Text ''31/02/2024'') = None \<and>
    isnull_sum (map parse_dates raw) =
      length (filter (\<lambda>r. to_datetime (Waktu r) = None) raw) \<and>
    fst (load_data fs file_path) =
      (if 0 < length (filter (\<lambda>r. to_datetime (Waktu r) = None) raw)
       then [''Peringatan: Terdapat '' @
             str_nat (length (filter (\<lambda>r. to_datetime (Waktu r) = None) raw)) @
             '' baris dengan format tanggal tidak valid'']
       else []) \<and>
    periode (analyze_news_and_slang (map parse_dates raw)) =
      periode (analyze_news_and_slang
        (filter (\<lambda>r. Waktu r \<noteq> None) (map parse_dates raw))) \<and>
    periode (analyze_news_and_slang (map parse_dates raw)) =
      (let days = dropna (map to_datetime (map Waktu raw))
       in if days = [] then (None, None) else (Some (Min (set days)), Some (Max (set days))))"
proof -
  have l: "load_data fs file_path =
      ((if 0 < isnull_sum (map parse_dates raw)
        then [''Peringatan: Terdapat '' @ str_nat (isnull_sum (map parse_dates raw)) @
              '' baris dengan format tanggal tidak valid'']
        else []), Some (map parse_dates raw))"
    using assms by (simp add: load_data_def Let_def)
  have a: "snd (load_data fs file_path) = Some (map parse_dates raw)"
    by (simp add: l)
  have b: "\<forall>r\<in>set raw. to_datetime (Waktu r) = None \<longrightarrow> Waktu (parse_dates r) = None"
    by (simp add: Waktu_parse_dates)
  have c: "to_datetime (Text ''31/02/2024'') = None"
    by code_simp
  have d: "isnull_sum (map parse_dates raw) =
      length (filter (\<lambda>r. to_datetime (Waktu r) = None) raw)"
    by (rule isnull_sum_parse_dates)
  have e: "fst (load_data fs file_path) =
      (if 0 < length (filter (\<lambda>r. to_datetime (Waktu r) = None) raw)
       then [''Peringatan: Terdapat '' @
             str_nat (length (filter (\<lambda>r. to_datetime (Waktu r) = None) raw)) @
             '' baris dengan format tanggal tidak valid'']
       else [])"
    unfolding l d by simp
  have f: "periode (analyze_news_and_slang (map parse_dates raw)) =
      periode (analyze_news_and_slang
        (filter (\<lambda>r. Waktu r \<noteq> None) (map parse_dates raw)))"
    unfolding analyze_news_and_slang_def analyze_with_fields series_min_def series_max_def
      dropna_Waktu_filter
    by (rule refl)
  have m: "map Waktu (map parse_dates raw) = map to_datetime (map Waktu raw)"
    by (simp add: Waktu_parse_dates)
  have g: "periode (analyze_news_and_slang (map parse_dates raw)) =
      (let days = dropna (map to_datetime (map Waktu raw))
       in if days = [] then (None, None) else (Some (Min (set days)), Some (Max (set days))))"
    unfolding analyze_news_and_slang_def analyze_with_fields m
    by (simp add: series_min_Min series_max_Max Let_def)
  show ?thesis
    by (intro conjI a b c d e f g)
qed

theorem invalid_dates_become_null_witness:
  "snd (load_data (\<lambda>p. Inr three_raw) ''politik_merge.csv'') =
     Some [mk_row (Text ''Rapat kabinet'') (Some (2024, 1, 5)) (Text ''isi'') (Text ''Detik''),
           mk_row (Text ''Sidang'') None (Text ''isi'') (Text ''Tempo''),
           mk_row (Text ''Pemilu'') (Some (2024, 1, 3)) (Text ''isi'') (Text ''Kompas'')] \<and>
   fst (load_data (\<lambda>p. Inr three_raw) ''politik_merge.csv'') =
     [''Peringatan: Terdapat 1 baris dengan format tanggal tidak valid''] \<and>
   periode (analyze_news_and_slang (map parse_dates three_raw)) =
     (Some (2024, 1, 3), Some (2024, 1, 5))"
proof -
  have p: "map parse_dates three_raw =
      [mk_row (Text ''Rapat kabinet'') (Some (2024, 1, 5)) (Text ''isi'') (Text ''Detik''),
       mk_row (Text ''Sidang'') None (Text ''isi'') (Text ''Tempo''),
       mk_row (Text ''Pemilu'') (Some (2024, 1, 3)) (Text ''isi'') (Text ''Kompas'')]"
    by code_simp
  have n: "length (filter (\<lambda>r. to_datetime (Waktu r) = None) three_raw) = 1"
    by code_simp
  have s: "str_nat 1 = ''1''"
    by code_simp
  have d: "dropna (map to_datetime (map Waktu three_raw)) = [(2024, 1, 5), (2024, 1, 3)]"
    by code_simp
  have mn: "Min (set [(2024, 1, 5), (2024, 1, 3) :: date]) = (2024, 1, 3)"
    by code_simp
  have mx: "Max (set [(2024, 1, 5), (2024, 1, 3) :: date]) = (2024, 1, 5)"
    by code_simp
  have "(\<lambda>p. Inr three_raw) ''politik_merge.csv'' = (Inr three_raw :: string + raw_table)"
    by (rule refl)
  note th = invalid_dates_become_null [OF this]
  have a: "snd (load_data (\<lambda>p. Inr three_raw) ''politik_merge.csv'') =
      Some [mk_row (Text ''Rapat kabinet'') (Some (2024, 1, 5)) (Text ''isi'') (Text ''Detik''),
            mk_row (Text ''Sidang'') None (Text ''isi'') (Text ''Tempo''),
            mk_row (Text ''Pemilu'') (Some (2024, 1, 3)) (Text ''isi'') (Text ''Kompas'')]"
    using th [THEN conjunct1] unfolding p .
  have e: "fst (load_data (\<lambda>p. Inr three_raw) ''politik_merge.csv'') =
      [''Peringatan: Terdapat 1 baris dengan format tanggal tidak valid'']"
    using th [THEN conjunct2, THEN conjunct2, THEN conjunct2, THEN conjunct2, THEN conjunct1]
    unfolding n s by simp
  have g: "periode (analyze_news_and_slang (map parse_dates three_raw)) =
      (Some (2024, 1, 3), Some (2024, 1, 5))"
    using th [THEN conjunct2, THEN conjunct2, THEN conjunct2, THEN conjunct2, THEN conjunct2,
        THEN conjunct2]
    unfolding d Let_def mn mx by simp
  show ?thesis
    by (intro conjI a e g)
qed

text \<open>
  Claim C8. When reading the file raises, \<open>load_data\<close> prints the error message and
  returns \<open>None\<close>; the run then prints nothing more, computes no analysis, renders no
  chart and saves no file.
\<close>

theorem load_failure_skips_run:
  "(fs file_path = Inl e \<longrightarrow>
      load_data fs file_path = ([''Error saat memuat data: '' @ e], None)) \<and>
   (fs ''politik_merge.csv'' = Inl e \<longrightarrow>
      main fs = \<lparr>printed = [''Memuat dataset...'', ''Error saat memuat data: '' @ e],
                 analysed = None, rendered = None, saved = []\<rparr>)"
  by (simp add: load_data_def main_def)

theorem load_failure_skips_run_witness:
  "load_data (\<lambda>p. Inl ''No such file or directory'') ''politik_merge.csv'' =
     ([''Error saat memuat data: No such file or directory''], None) \<and>
   main (\<lambda>p. Inl ''No such file or directory'') =
     \<lparr>printed = [''Memuat dataset...'', ''Error saat memuat data: No such file or directory''],
      analysed = None, rendered = None, saved = []\<rparr>"
  using load_failure_skips_run [of "\<lambda>p. Inl ''No such file or directory''"
      "''politik_merge.csv''" "''No such file or directory''"]
  by simp

text \<open>
  Claim C9. For a vocabulary that holds \<open>gue\<close> and \<open>banget\<close> and none of \<open>suka\<close>,
  \<open>berita\<close>, \<open>biasa\<close> (the vocabulary of the scenario and the one of the code are
  such), and a row with title \<open>Gue Suka Banget\<close> and content \<open>Berita biasa\<close>: the
  detector gives \<open>gue, banget\<close> for the title and nothing for the content; processing
  the row adds one to the title counter, leaves the content counter as it is and, while
  fewer than five examples are collected (so in the table of that row alone), appends
  the example record of the row with the matched words \<open>gue\<close> and \<open>banget\<close>.
\<close>

theorem example_scenario:
  assumes V: "''gue'' \<in> V" "''banget'' \<in> V" "''suka'' \<notin> V" "''berita'' \<notin> V" "''biasa'' \<notin> V"
    and row: "Judul row = Text ''Gue Suka Banget''" "Content row = Text ''Berita biasa''"
  shows "detect_slang_words (Judul row) V = [''gue'', ''banget''] \<and>
    detect_slang_words (Content row) V = [] \<and>
    berita_dengan_gaul_judul (analyze_row V row st) = berita_dengan_gaul_judul st + 1 \<and>
    berita_dengan_gaul_konten (analyze_row V row st) = berita_dengan_gaul_konten st \<and>
    (length (contoh_berita_gaul st) < 5 \<longrightarrow>
       contoh_berita_gaul (analyze_row V row st) = contoh_berita_gaul st @
         [\<lparr>judul = Judul row, waktu = Waktu row, source = Source row,
           kata_gaul = {''gue'', ''banget''}\<rparr>]) \<and>
    contoh_berita_gaul (analyze_with V [row]) =
      [\<lparr>judul = Judul row, waktu = Waktu row, source = Source row,
        kata_gaul = {''gue'', ''banget''}\<rparr>]"
proof -
  have t: "detect_slang_words (Judul row) V = [''gue'', ''banget'']"
    unfolding row detect_slang_words_filter tokens_gue_suka_banget using V by simp
  have c: "detect_slang_words (Content row) V = []"
    unfolding row detect_slang_words_filter tokens_berita_biasa using V by simp
  have h: "has_slang V row"
    by (simp add: has_slang_def t)
  have ex: "example_of V row =
      \<lparr>judul = Judul row, waktu = Waktu row, source = Source row,
       kata_gaul = {''gue'', ''banget''}\<rparr>"
    by (simp add: example_of_def t c)
  have j: "berita_dengan_gaul_judul (analyze_row V row st) = berita_dengan_gaul_judul st + 1"
    by (simp add: analyze_row_judul t)
  have k: "berita_dengan_gaul_konten (analyze_row V row st) = berita_dengan_gaul_konten st"
    by (simp add: analyze_row_konten c)
  have e: "length (contoh_berita_gaul st) < 5 \<longrightarrow>
       contoh_berita_gaul (analyze_row V row st) = contoh_berita_gaul st @
         [\<lparr>judul = Judul row, waktu = Waktu row, source = Source row,
           kata_gaul = {''gue'', ''banget''}\<rparr>]"
    by (simp add: analyze_row_contoh h ex)
  have w: "contoh_berita_gaul (analyze_with V [row]) =
      [\<lparr>judul = Judul row, waktu = Waktu row, source = Source row,
        kata_gaul = {''gue'', ''banget''}\<rparr>]"
    by (simp add: analyze_with_fields h ex)
  show ?thesis
    by (intro conjI t c j k e w)
qed

theorem example_scenario_witness:
  "detect_slang_words (Text ''Gue Suka Banget'') {''gue'', ''banget''} = [''gue'', ''banget''] \<and>
   detect_slang_words (Text ''Berita biasa'') {''gue'', ''banget''} = [] \<and>
   berita_dengan_gaul_judul (analyze_with {''gue'', ''banget''} [scenario_row]) = 1 \<and>
   berita_dengan_gaul_konten (analyze_with {''gue'', ''banget''} [scenario_row]) = 0 \<and>
   contoh_berita_gaul (analyze_with {''gue'', ''banget''} [scenario_row]) =
     [\<lparr>judul = Text ''Gue Suka Banget'', waktu = Some (2024, 1, 5), source = Text ''Detik'',
       kata_gaul = {''gue'', ''banget''}\<rparr>] \<and>
   berita_dengan_gaul_judul (analyze_news_and_slang [scenario_row]) = 1 \<and>
   berita_dengan_gaul_konten (analyze_news_and_slang [scenario_row]) = 0 \<and>
   contoh_berita_gaul (analyze_news_and_slang [scenario_row]) =
     [\<lparr>judul = Text ''Gue Suka Banget'', waktu = Some (2024, 1, 5), source = Text ''Detik'',
       kata_gaul = {''gue'', ''banget''}\<rparr>]"
proof -
  have r: "Judul scenario_row = Text ''Gue Suka Banget''"
    "Content scenario_row = Text ''Berita biasa''"
    "Waktu scenario_row = Some (2024, 1, 5)" "Source scenario_row = Text ''Detik''"
    by (simp_all add: scenario_row_def mk_row_def)
  have b: "berita_dengan_gaul_judul (basic_analysis [scenario_row]) = 0"
    "berita_dengan_gaul_konten (basic_analysis [scenario_row]) = 0"
    "contoh_berita_gaul (basic_analysis [scenario_row]) = []"
    by (simp_all add: basic_analysis_def)
  have aw: "analyze_with V [scenario_row] = analyze_row V scenario_row (basic_analysis [scenario_row])"
    for V by (simp add: analyze_with_def)
  have v1: "''gue'' \<in> {''gue'', ''banget''}" "''banget'' \<in> {''gue'', ''banget''}"
    "''suka'' \<notin> {''gue'', ''banget''}" "''berita'' \<notin> {''gue'', ''banget''}"
    "''biasa'' \<notin> {''gue'', ''banget''}"
    by simp_all
  have v2: "''gue'' \<in> slang_dictionary" "''banget'' \<in> slang_dictionary"
    "''suka'' \<notin> slang_dictionary" "''berita'' \<notin> slang_dictionary"
    "''biasa'' \<notin> slang_dictionary"
    by (simp_all add: slang_dictionary_def)
  note t1 = example_scenario [OF v1 r(1,2), of "basic_analysis [scenario_row]"]
  note t2 = example_scenario [OF v2 r(1,2), of "basic_analysis [scenario_row]"]
  from t1 t2 show ?thesis
    unfolding analyze_news_and_slang_def aw r b by simp
qed

text \<open>
  Claim C10. The entry \<open>glow up\<close> is in the vocabulary of the code and is never in
  the output of the detector, for any value and any vocabulary: a token holds no blank.
  The analysis with the entry removed from the vocabulary is the analysis of the code,
  and the count of the entry in the frequency mapping is zero.
\<close>

theorem glow_up_never_matched:
  "''glow up'' \<in> slang_dictionary \<and>
   ''glow up'' \<notin> set (detect_slang_words v V) \<and>
   analyze_with (slang_dictionary - {''glow up''}) df = analyze_news_and_slang df \<and>
   counter_get (frekuensi_kata_gaul (analyze_news_and_slang df)) ''glow up'' = 0"
proof -
  have m: "CHR '' '' \<in> set ''glow up''"
    by simp
  have a: "''glow up'' \<in> slang_dictionary"
    by (simp add: slang_dictionary_def)
  have n: "''glow up'' \<notin> set (detect_slang_words v V)" for v V
    unfolding detect_slang_words_filter
    using findall_words_only_word_chars [OF m blank_not_word_char] by simp
  have e: "analyze_with (slang_dictionary - {''glow up''}) df = analyze_news_and_slang df"
    unfolding analyze_news_and_slang_def analyze_with_def
      analyze_row_dead_entry [OF m blank_not_word_char] by (rule refl)
  have "''glow up'' \<notin> set (concat (map (row_words slang_dictionary) df))"
    using n by (simp add: row_words_def)
  then have z: "counter_get (frekuensi_kata_gaul (analyze_news_and_slang df)) ''glow up'' = 0"
    by (simp add: analyze_news_and_slang_def analyze_with_fields counter_get_update
        counter_get_Nil count_list_zero)
  show ?thesis
    by (intro conjI a n e z)
qed

theorem glow_up_never_matched_witness:
  "detect_slang_words (Text ''Glow Up banget, glow up!'') slang_dictionary = [''banget''] \<and>
   ''glow up'' \<notin> set (detect_slang_words (Text ''Glow Up banget, glow up!'') slang_dictionary)"
proof -
  have "detect_slang_words (Text ''Glow Up banget, glow up!'') slang_dictionary = [''banget'']"
    by code_simp
  then show ?thesis
    using glow_up_never_matched [of "Text ''Glow Up banget, glow up!''" slang_dictionary]
    by blast
qed




end
